theory Spec2Isabelle
  imports Complex_Main "HOL-Library.AList"
begin

section \<open>The game client of game.js\<close>

text \<open>
  The class \<open>GameClient\<close> of \<open>game.js\<close> is one object whose fields are mutated by
  callbacks (key events, socket events, image-load events, timers). The embedding is a record of
  those fields, and one state transformer per method or callback.

  Conventions of the embedding:
  \<^item> A JavaScript number is a \<open>real\<close> (exact arithmetic, no NaN or infinity); the canvas size,
    an \<open>unsigned long\<close> in the DOM, is a \<open>nat\<close>; \<open>Date.now()\<close> is an \<open>int\<close> of milliseconds.
  \<^item> A JavaScript object used as a table whose keys are enumerated (\<open>players\<close>, \<open>avatars\<close>) is an
    association list in insertion order: \<open>obj[k] = v\<close> is \<open>AList.update\<close> (in place when the
    key exists, appended otherwise), \<open>delete obj[k]\<close> is \<open>AList.delete\<close>, \<open>obj[k]\<close> is
    \<open>map_of\<close>. Tables that are only looked up (\<open>activeEmotes\<close>, \<open>avatarImages\<close>,
    \<open>movementKeys\<close>) are maps.
  \<^item> A lookup \<open>obj[k]\<close> finds the entries of the table itself: the keys that occur (key
    codes, emote types, ids, avatar names) are taken not to be property names of
    \<open>Object.prototype\<close>, and the ids not to be array indices, which JavaScript would
    enumerate first.
  \<^item> The calls made on the 2D context are recorded, in order, in the field \<open>ctxCalls\<close>;
    the messages handed to \<open>socket.send\<close> in the field \<open>sent\<close>.
  \<^item> \<open>setTimeout\<close> appends to the field \<open>timers\<close> the time at which the callback is due and
    the player id its closure holds; \<open>advanceTo\<close> runs the callbacks that are due.
\<close>

subsection \<open>Data\<close>

record image =
  img_src :: string
  img_width :: real
  img_height :: real
  img_loaded :: bool

record player =
  p_id :: string
  username :: string
  p_x :: real
  p_y :: real
  facing :: string
  animationFrame :: "nat option"
  avatar :: string

record avatar_def =
  av_name :: string
  av_frames :: "(string \<times> string list) list"

record camera_rect =
  cam_x :: real
  cam_y :: real
  cam_width :: real
  cam_height :: real

record emote =
  em_type :: string
  startTime :: int

record chat_message =
  cm_username :: string
  cm_message :: string
  cm_timestamp :: int
  cm_type :: string

datatype ready_state = CONNECTING | OPEN | CLOSING | CLOSED

datatype client_message =
    JoinGame string "avatar_def option"
  | Move string
  | Stop
  | Emote string
  | Chat string

datatype server_message =
    JoinGameOk string "(string \<times> player) list" "(string \<times> avatar_def) list"
  | JoinGameFailed string
  | PlayersMoved "(string \<times> player) list"
  | PlayerJoined player avatar_def
  | PlayerLeft string
  | EmoteShown string string
  | ChatReceived string string
  | UnknownAction string

datatype ctx_call =
    ClearRect real real real real
  | DrawImage9 image real real real real real real real real
  | DrawImage5 image real real real real
  | Save
  | Restore
  | Scale real real
  | SetFillStyle string
  | SetStrokeStyle string
  | SetLineWidth real
  | SetFont string
  | SetTextAlign string
  | SetGlobalAlpha real
  | StrokeText string real real
  | FillText string real real

record client =
  canvasWidth :: nat
  canvasHeight :: nat
  ctxCalls :: "ctx_call list"
  worldImage :: "image option"
  socket :: "ready_state option"
  sent :: "client_message list"
  myPlayerId :: "string option"
  players :: "(string \<times> player) list"
  avatars :: "(string \<times> avatar_def) list"
  myPosition :: "real \<times> real"
  camera :: camera_rect
  avatarImages :: "string \<rightharpoonup> (string \<rightharpoonup> (nat \<rightharpoonup> image))"
  customAvatar :: "avatar_def option"
  activeEmotes :: "string \<rightharpoonup> emote"
  chatMessages :: "chat_message list"
  pressedKeys :: "string set"
  now :: int
  timers :: "(int \<times> string) list"

text \<open>The constants the constructor stores in \<open>this\<close> and never assigns again.\<close>

definition worldSize :: real where
  "worldSize = 2048"

definition emoteDuration :: int where
  "emoteDuration = 3000"

definition maxChatMessages :: nat where
  "maxChatMessages = 50"

definition movementKeys :: "string \<rightharpoonup> string" where
  "movementKeys =
     [''ArrowUp'' \<mapsto> ''up'', ''ArrowDown'' \<mapsto> ''down'',
      ''ArrowLeft'' \<mapsto> ''left'', ''ArrowRight'' \<mapsto> ''right'']"

subsection \<open>Camera\<close>

text \<open>
  \<open>updateCamera\<close>: the rectangle takes the canvas size, is centred on \<open>myPosition\<close> and is
  then clamped with \<open>Math.max(0, Math.min(v, worldSize - size))\<close>.
\<close>

definition updateCamera :: "client \<Rightarrow> client" where
  "updateCamera s =
     (let w = real (canvasWidth s);
          h = real (canvasHeight s);
          x0 = fst (myPosition s) - w / 2;
          y0 = snd (myPosition s) - h / 2
      in s\<lparr>camera :=
            \<lparr>cam_x = max 0 (min x0 (worldSize - w)),
             cam_y = max 0 (min y0 (worldSize - h)),
             cam_width = w,
             cam_height = h\<rparr>\<rparr>)"

text \<open>
  The clamp of the specification, written from its words: a value below the lower bound becomes
  the lower bound, a value above the upper bound becomes the upper bound, any other value is
  kept.
\<close>

definition spec_clamp :: "real \<Rightarrow> real \<Rightarrow> real \<Rightarrow> real" where
  "spec_clamp v lo hi = (if v < lo then lo else if hi < v then hi else v)"

subsection \<open>Rendering\<close>

text \<open>
  The table \<open>emoteEmojis\<close> of \<open>drawEmote\<close>. The glyphs are written by their code points,
  the default glyph (for a type that has no entry) is U+1F60A.
\<close>

definition emoteEmojis :: "string \<rightharpoonup> string" where
  "emoteEmojis =
     [''wave'' \<mapsto> ''U+1F44B'', ''dance'' \<mapsto> ''U+1F483'', ''jump'' \<mapsto> ''U+1F998'',
      ''heart'' \<mapsto> ''U+2764 U+FE0F'', ''laugh'' \<mapsto> ''U+1F602'',
      ''thumbsup'' \<mapsto> ''U+1F44D'']"

text \<open>
  \<open>drawEmote\<close>, as the list of the calls it makes on the context: none when the player has no
  record in \<open>activeEmotes\<close>.
\<close>

definition drawEmote :: "client \<Rightarrow> string \<Rightarrow> real \<Rightarrow> real \<Rightarrow> ctx_call list" where
  "drawEmote s playerId screenX screenY =
     (case activeEmotes s playerId of
        None \<Rightarrow> []
      | Some e \<Rightarrow>
          (let elapsed = real_of_int (now s - startTime e);
               progress = elapsed / real_of_int emoteDuration;
               alpha = max 0 (1 - progress);
               bounce = sin (progress * pi * 4) * 5;
               emoteY = screenY + bounce;
               emoji = (case emoteEmojis (em_type e) of Some g \<Rightarrow> g | None \<Rightarrow> ''U+1F60A'')
           in [Save, SetGlobalAlpha alpha, SetFont ''24px Arial'', SetTextAlign ''center'',
               SetFillStyle ''rgba(0,0,0,0.5)'', FillText emoji (screenX + 2) (emoteY + 2),
               SetFillStyle ''white'', FillText emoji screenX emoteY, Restore]))"

text \<open>
  \<open>drawAvatar\<close>, as the list of the calls it makes on the context. In source order: the cull
  test, the lookups of the avatar and of its images, the choice of the frame set (east for a
  player facing west), the lookup of the frame, the sprite between \<open>save\<close> and \<open>restore\<close>
  (after \<open>scale(-1, 1)\<close> for a player facing west), the label, the emote.
\<close>

definition drawAvatar :: "client \<Rightarrow> player \<Rightarrow> ctx_call list" where
  "drawAvatar s pl =
     (let screenX = p_x pl - cam_x (camera s);
          screenY = p_y pl - cam_y (camera s)
      in if screenX < - 50 \<or> screenX > cam_width (camera s) + 50 \<or>
            screenY < - 50 \<or> screenY > cam_height (camera s) + 50
         then []
         else
           (case map_of (avatars s) (avatar pl) of
              None \<Rightarrow> []
            | Some av \<Rightarrow>
           (case avatarImages s (avatar pl) of
              None \<Rightarrow> []
            | Some imgs \<Rightarrow>
           (let direction = facing pl;
                frameIndex = (case animationFrame pl of None \<Rightarrow> 0 | Some n \<Rightarrow> n);
                frameDirection = (if direction = ''west'' then ''east'' else direction)
            in
           (case imgs frameDirection of
              None \<Rightarrow> []
            | Some frames \<Rightarrow>
           (case frames frameIndex of
              None \<Rightarrow> []
            | Some avatarImg \<Rightarrow>
           (let avatarSize = 32;
                aspectRatio = img_width avatarImg / img_height avatarImg;
                width = avatarSize * aspectRatio;
                height = avatarSize;
                textY = screenY - height / 2 - 5
            in [Save]
               @ (if direction = ''west''
                  then [Scale (- 1) 1,
                        DrawImage5 avatarImg (- screenX - width / 2) (screenY - height / 2)
                          width height]
                  else [DrawImage5 avatarImg (screenX - width / 2) (screenY - height / 2)
                          width height])
               @ [Restore]
               @ [Save, SetFillStyle ''white'', SetStrokeStyle ''black'', SetLineWidth 2,
                  SetFont ''12px Arial'', SetTextAlign ''center'',
                  StrokeText (username pl) screenX textY,
                  FillText (username pl) screenX textY, Restore]
               @ drawEmote s (p_id pl) screenX (screenY - height / 2 - 20))))))))"

definition drawAvatars :: "client \<Rightarrow> ctx_call list" where
  "drawAvatars s = concat (map (\<lambda>(playerId, pl). drawAvatar s pl) (players s))"

text \<open>
  \<open>render\<close>: returns at once when \<open>worldImage\<close> is null; otherwise clears the canvas, draws
  the part of the world image under the camera and then the avatars.
\<close>

definition render :: "client \<Rightarrow> client" where
  "render s =
     (case worldImage s of
        None \<Rightarrow> s
      | Some img \<Rightarrow>
          s\<lparr>ctxCalls := ctxCalls s
               @ [ClearRect 0 0 (real (canvasWidth s)) (real (canvasHeight s)),
                  DrawImage9 img (cam_x (camera s)) (cam_y (camera s))
                    (cam_width (camera s)) (cam_height (camera s))
                    0 0 (cam_width (camera s)) (cam_height (camera s))]
               @ drawAvatars s\<rparr>)"

text \<open>
  Where the 2D context paints. The client changes the transform of the context by \<open>scale\<close>
  only, so the transform in force is a scaling of the axes; with the horizontal factor \<open>a\<close> a
  point at \<open>x\<close> in the coordinates of a call lands at \<open>a * x\<close> on the canvas.
  \<open>spriteX a calls u\<close> is where the first five-argument \<open>drawImage\<close> of \<open>calls\<close> paints
  the point that lies \<open>u\<close> to the right of the left edge of its destination rectangle.
\<close>

fun spriteX :: "real \<Rightarrow> ctx_call list \<Rightarrow> real \<Rightarrow> real option" where
  "spriteX a [] u = None"
| "spriteX a (Scale sx sy # cs) u = spriteX (a * sx) cs u"
| "spriteX a (DrawImage5 img dx dy dw dh # cs) u = Some (a * (dx + u))"
| "spriteX a (c # cs) u = spriteX a cs u"

text \<open>The canvas: the \<open>resize\<close> listener of \<open>setupCanvas\<close>, with the new window size.\<close>

definition resize :: "nat \<Rightarrow> nat \<Rightarrow> client \<Rightarrow> client" where
  "resize w h s = render (updateCamera (s\<lparr>canvasWidth := w, canvasHeight := h\<rparr>))"

text \<open>
  \<open>loadWorldMap\<close> stores a new image element in \<open>worldImage\<close> and starts loading it; the
  element is there, not yet loaded, from then on. \<open>worldImage_onload\<close> is its \<open>onload\<close>
  callback, with the size of the decoded picture.
\<close>

definition loadWorldMap :: "client \<Rightarrow> client" where
  "loadWorldMap s =
     s\<lparr>worldImage :=
         Some \<lparr>img_src = ''world.jpg'', img_width = 0, img_height = 0, img_loaded = False\<rparr>\<rparr>"

definition worldImage_onload :: "real \<Rightarrow> real \<Rightarrow> client \<Rightarrow> client" where
  "worldImage_onload w h s =
     render (updateCamera
       (s\<lparr>worldImage :=
            map_option (\<lambda>i. i\<lparr>img_width := w, img_height := h, img_loaded := True\<rparr>)
              (worldImage s)\<rparr>))"

subsection \<open>Chat log\<close>

text \<open>
  \<open>addChatMessage\<close>: push, then one \<open>shift\<close> when the length exceeds \<open>maxChatMessages\<close>.
  The entry keeps the clock reading from which the source formats its label of hours and
  minutes. \<open>renderChat\<close> rebuilds the chat panel of the page from \<open>chatMessages\<close> and changes
  no field.
\<close>

definition addChatMessage :: "string \<Rightarrow> string \<Rightarrow> string \<Rightarrow> client \<Rightarrow> client" where
  "addChatMessage user msg type s =
     (let pushed = chatMessages s
            @ [\<lparr>cm_username = user, cm_message = msg, cm_timestamp = now s, cm_type = type\<rparr>]
      in s\<lparr>chatMessages :=
            (if length pushed > maxChatMessages then tl pushed else pushed)\<rparr>)"

definition sendChatMessage :: "string \<Rightarrow> client \<Rightarrow> client" where
  "sendChatMessage msg s =
     (if socket s \<noteq> Some OPEN then s
      else addChatMessage ''You'' msg ''own'' (s\<lparr>sent := sent s @ [Chat msg]\<rparr>))"

text \<open>
  A call of \<open>addChatMessage\<close> at a given time, for sequences of insertions, and the entry it
  pushes.
\<close>

definition chatEntry :: "int \<times> string \<times> string \<times> string \<Rightarrow> chat_message" where
  "chatEntry e = (case e of (t, user, msg, type) \<Rightarrow>
     \<lparr>cm_username = user, cm_message = msg, cm_timestamp = t, cm_type = type\<rparr>)"

definition chatInsert :: "int \<times> string \<times> string \<times> string \<Rightarrow> client \<Rightarrow> client" where
  "chatInsert e s = (case e of (t, user, msg, type) \<Rightarrow> addChatMessage user msg type (s\<lparr>now := t\<rparr>))"

subsection \<open>Emotes and their timers\<close>

text \<open>
  \<open>showEmote\<close> stores the record with the current time, schedules the removal
  \<open>emoteDuration\<close> later and renders. It keeps no handle of the timer and clears none.
  \<open>emoteTimeout\<close> is the scheduled callback: it deletes whatever record the player has and
  renders.
\<close>

definition showEmote :: "string \<Rightarrow> string \<Rightarrow> client \<Rightarrow> client" where
  "showEmote playerId emoteType s =
     render (s\<lparr>activeEmotes :=
                 (activeEmotes s)(playerId \<mapsto> \<lparr>em_type = emoteType, startTime = now s\<rparr>),
               timers := timers s @ [(now s + emoteDuration, playerId)]\<rparr>)"

definition emoteTimeout :: "string \<Rightarrow> client \<Rightarrow> client" where
  "emoteTimeout playerId s = render (s\<lparr>activeEmotes := (activeEmotes s)(playerId := None)\<rparr>)"

text \<open>
  The clock moves to \<open>t\<close>: the timers due by then leave the queue and their callbacks run in
  the order of their due times (for equal due times in the order they were set), each at its
  due time.
\<close>

definition advanceTo :: "int \<Rightarrow> client \<Rightarrow> client" where
  "advanceTo t s =
     (let due = sort_key fst (filter (\<lambda>(d, playerId). d \<le> t) (timers s));
          rest = filter (\<lambda>(d, playerId). \<not> d \<le> t) (timers s);
          s' = fold (\<lambda>(d, playerId) c. emoteTimeout playerId (c\<lparr>now := max (now c) d\<rparr>))
                 due (s\<lparr>timers := rest\<rparr>)
      in s'\<lparr>now := max (now s') t\<rparr>)"

text \<open>
  \<open>sendEmote\<close>: the key under which \<open>showEmote\<close> stores the record is the property name of
  \<open>myPlayerId\<close>, which is \<open>null\<close> before the join is acknowledged.
\<close>

definition sendEmote :: "string \<Rightarrow> client \<Rightarrow> client" where
  "sendEmote emoteType s =
     (if socket s \<noteq> Some OPEN then s
      else showEmote (case myPlayerId s of None \<Rightarrow> ''null'' | Some playerId \<Rightarrow> playerId)
             emoteType (s\<lparr>sent := sent s @ [Emote emoteType]\<rparr>))"

subsection \<open>Keyboard\<close>

definition sendMoveCommand :: "string \<Rightarrow> client \<Rightarrow> client" where
  "sendMoveCommand direction s =
     (if socket s \<noteq> Some OPEN then s else s\<lparr>sent := sent s @ [Move direction]\<rparr>)"

definition sendStopCommand :: "client \<Rightarrow> client" where
  "sendStopCommand s =
     (if socket s \<noteq> Some OPEN then s else s\<lparr>sent := sent s @ [Stop]\<rparr>)"

text \<open>
  \<open>handleKeyDown\<close> and \<open>handleKeyUp\<close>, on the \<open>code\<close> of the key event. The call of
  \<open>preventDefault\<close> acts on the browser only.
\<close>

definition handleKeyDown :: "string \<Rightarrow> client \<Rightarrow> client" where
  "handleKeyDown code s =
     (if take 5 code = ''Digit'' then s
      else case movementKeys code of
             None \<Rightarrow> s
           | Some direction \<Rightarrow>
               sendMoveCommand direction (s\<lparr>pressedKeys := insert code (pressedKeys s)\<rparr>))"

definition handleKeyUp :: "string \<Rightarrow> client \<Rightarrow> client" where
  "handleKeyUp code s =
     (case movementKeys code of
        None \<Rightarrow> s
      | Some direction \<Rightarrow>
          (let s' = s\<lparr>pressedKeys := pressedKeys s - {code}\<rparr>
           in if pressedKeys s' = {} then sendStopCommand s' else s'))"

text \<open>The second \<open>keydown\<close> listener, installed by \<open>setupEmotes\<close>.\<close>

definition emoteShortcut :: "string \<Rightarrow> client \<Rightarrow> client" where
  "emoteShortcut code s =
     (let s1 = (if code = ''Digit1'' then sendEmote ''wave'' s else s);
          s2 = (if code = ''Digit2'' then sendEmote ''dance'' s1 else s1);
          s3 = (if code = ''Digit3'' then sendEmote ''jump'' s2 else s2);
          s4 = (if code = ''Digit4'' then sendEmote ''heart'' s3 else s3);
          s5 = (if code = ''Digit5'' then sendEmote ''laugh'' s4 else s4)
      in if code = ''Digit6'' then sendEmote ''thumbsup'' s5 else s5)"

text \<open>A \<open>keydown\<close> event runs both listeners, in the order \<open>init\<close> installed them.\<close>

definition keydown :: "string \<Rightarrow> client \<Rightarrow> client" where
  "keydown code s = emoteShortcut code (handleKeyDown code s)"

subsection \<open>Avatar images\<close>

text \<open>
  \<open>loadAvatarImage\<close> creates the entry of the avatar, with an empty array for each of the
  three stored directions, unless the entry exists. The images it starts loading arrive later,
  one \<open>onload\<close> callback per frame: \<open>avatarFrame_onload\<close>.
\<close>

definition loadAvatarImage :: "avatar_def \<Rightarrow> client \<Rightarrow> client" where
  "loadAvatarImage av s =
     (if avatarImages s (av_name av) \<noteq> None then s
      else s\<lparr>avatarImages := (avatarImages s)(av_name av \<mapsto>
               [''north'' \<mapsto> Map.empty, ''south'' \<mapsto> Map.empty, ''east'' \<mapsto> Map.empty])\<rparr>)"

definition loadAvatarImages :: "client \<Rightarrow> client" where
  "loadAvatarImages s = fold (\<lambda>(avatarName, av). loadAvatarImage av) (avatars s) s"

definition avatarFrame_onload :: "string \<Rightarrow> string \<Rightarrow> nat \<Rightarrow> image \<Rightarrow> client \<Rightarrow> client" where
  "avatarFrame_onload name direction index img s =
     (let byDirection = (case avatarImages s name of None \<Rightarrow> Map.empty | Some d \<Rightarrow> d);
          frames = (case byDirection direction of None \<Rightarrow> Map.empty | Some f \<Rightarrow> f)
      in render (s\<lparr>avatarImages :=
                     (avatarImages s)(name \<mapsto> byDirection(direction \<mapsto> frames(index \<mapsto> img)))\<rparr>))"

subsection \<open>Messages of the server\<close>

definition updateMyPosition :: "client \<Rightarrow> client" where
  "updateMyPosition s =
     (case myPlayerId s of
        None \<Rightarrow> s
      | Some playerId \<Rightarrow>
          if playerId = [] then s
          else case map_of (players s) playerId of
                 None \<Rightarrow> s
               | Some pl \<Rightarrow> s\<lparr>myPosition := (p_x pl, p_y pl)\<rparr>)"

text \<open>
  The object spread \<open>{...a, ...b}\<close>: the entries of \<open>a\<close>, then each entry of \<open>b\<close> in turn
  assigned by key.
\<close>

definition spread :: "(string \<times> 'v) list \<Rightarrow> (string \<times> 'v) list \<Rightarrow> (string \<times> 'v) list" where
  "spread a b = fold (\<lambda>(k, v). AList.update k v) b a"

fun handleMessage :: "server_message \<Rightarrow> client \<Rightarrow> client" where
  "handleMessage (JoinGameOk playerId ps avs) s =
     render (addChatMessage ''System'' ''Successfully joined the game!'' ''system''
       (updateCamera (updateMyPosition (loadAvatarImages
          (s\<lparr>myPlayerId := Some playerId, players := ps, avatars := avs\<rparr>)))))"
| "handleMessage (JoinGameFailed err) s =
     addChatMessage ''System'' (''Failed to join game: '' @ err) ''system'' s"
| "handleMessage (PlayersMoved ps) s =
     render (updateCamera (updateMyPosition (s\<lparr>players := spread (players s) ps\<rparr>)))"
| "handleMessage (PlayerJoined pl av) s =
     render (addChatMessage ''System'' (username pl @ '' joined the game!'') ''system''
       (loadAvatarImage av
          (s\<lparr>players := AList.update (p_id pl) pl (players s),
             avatars := AList.update (av_name av) av (avatars s)\<rparr>)))"
| "handleMessage (PlayerLeft playerId) s =
     (let leftPlayer = map_of (players s) playerId;
          s' = s\<lparr>players := AList.delete playerId (players s),
                 activeEmotes := (activeEmotes s)(playerId := None)\<rparr>
      in render (case leftPlayer of
                   None \<Rightarrow> s'
                 | Some pl \<Rightarrow>
                     addChatMessage ''System'' (username pl @ '' left the game.'') ''system'' s'))"
| "handleMessage (EmoteShown playerId emoteType) s = showEmote playerId emoteType s"
| "handleMessage (ChatReceived user msg) s = addChatMessage user msg ''other'' s"
| "handleMessage (UnknownAction a) s = s"

subsection \<open>Connection and start\<close>

definition joinGame :: "client \<Rightarrow> client" where
  "joinGame s = s\<lparr>sent := sent s @ [JoinGame ''Melvin'' (customAvatar s)]\<rparr>"

definition connectToServer :: "client \<Rightarrow> client" where
  "connectToServer s = s\<lparr>socket := Some CONNECTING\<rparr>"

definition socket_onopen :: "client \<Rightarrow> client" where
  "socket_onopen s = joinGame (s\<lparr>socket := Some OPEN\<rparr>)"

definition socket_onclose :: "client \<Rightarrow> client" where
  "socket_onclose s = s\<lparr>socket := Some CLOSED\<rparr>"

definition setupChat :: "client \<Rightarrow> client" where
  "setupChat s =
     addChatMessage ''System''
       ''Welcome to the game! Type messages to chat with other players.'' ''system'' s"

text \<open>
  The constructor followed by \<open>init\<close>, for a window of the given size at the given time.
\<close>

definition newClient :: "nat \<Rightarrow> nat \<Rightarrow> int \<Rightarrow> client" where
  "newClient w h t =
     connectToServer (setupChat (loadWorldMap
       \<lparr>canvasWidth = w, canvasHeight = h, ctxCalls = [], worldImage = None,
        socket = None, sent = [], myPlayerId = None, players = [], avatars = [],
        myPosition = (0, 0),
        camera = \<lparr>cam_x = 0, cam_y = 0, cam_width = 0, cam_height = 0\<rparr>,
        avatarImages = Map.empty, customAvatar = None, activeEmotes = Map.empty,
        chatMessages = [], pressedKeys = {}, now = t, timers = []\<rparr>))"

subsection \<open>Sample values\<close>

text \<open>Values for the closed examples: a player, an avatar definition, a decoded frame.\<close>

definition samplePlayer :: "string \<Rightarrow> real \<Rightarrow> real \<Rightarrow> string \<Rightarrow> player" where
  "samplePlayer i x y dir =
     \<lparr>p_id = i, username = i, p_x = x, p_y = y, facing = dir, animationFrame = Some 0,
      avatar = ''hero''\<rparr>"

definition sampleAvatar :: avatar_def where
  "sampleAvatar =
     \<lparr>av_name = ''hero'',
      av_frames = [(''north'', [''n0'']), (''south'', [''s0'']), (''east'', [''e0''])]\<rparr>"

definition sampleImage :: "string \<Rightarrow> image" where
  "sampleImage src = \<lparr>img_src = src, img_width = 32, img_height = 32, img_loaded = True\<rparr>"

section \<open>Properties\<close>

subsection \<open>Fields an operation leaves alone\<close>

lemma render_keeps [simp]:
  "players (render s) = players s"
  "activeEmotes (render s) = activeEmotes s"
  "chatMessages (render s) = chatMessages s"
  "timers (render s) = timers s"
  "now (render s) = now s"
  "sent (render s) = sent s"
  "socket (render s) = socket s"
  "worldImage (render s) = worldImage s"
  "camera (render s) = camera s"
  "pressedKeys (render s) = pressedKeys s"
  "myPlayerId (render s) = myPlayerId s"
  "myPosition (render s) = myPosition s"
  "avatars (render s) = avatars s"
  "avatarImages (render s) = avatarImages s"
  "canvasWidth (render s) = canvasWidth s"
  "canvasHeight (render s) = canvasHeight s"
  "customAvatar (render s) = customAvatar s"
  by (simp_all add: render_def split: option.split)

lemma updateCamera_keeps [simp]:
  "players (updateCamera s) = players s"
  "activeEmotes (updateCamera s) = activeEmotes s"
  "chatMessages (updateCamera s) = chatMessages s"
  "timers (updateCamera s) = timers s"
  "now (updateCamera s) = now s"
  "sent (updateCamera s) = sent s"
  "socket (updateCamera s) = socket s"
  "worldImage (updateCamera s) = worldImage s"
  "ctxCalls (updateCamera s) = ctxCalls s"
  "myPlayerId (updateCamera s) = myPlayerId s"
  "myPosition (updateCamera s) = myPosition s"
  "avatars (updateCamera s) = avatars s"
  "avatarImages (updateCamera s) = avatarImages s"
  "canvasWidth (updateCamera s) = canvasWidth s"
  "canvasHeight (updateCamera s) = canvasHeight s"
  by (simp_all add: updateCamera_def Let_def)

lemma updateMyPosition_keeps [simp]:
  "players (updateMyPosition s) = players s"
  "activeEmotes (updateMyPosition s) = activeEmotes s"
  "chatMessages (updateMyPosition s) = chatMessages s"
  "timers (updateMyPosition s) = timers s"
  "now (updateMyPosition s) = now s"
  "sent (updateMyPosition s) = sent s"
  "socket (updateMyPosition s) = socket s"
  "worldImage (updateMyPosition s) = worldImage s"
  "ctxCalls (updateMyPosition s) = ctxCalls s"
  "myPlayerId (updateMyPosition s) = myPlayerId s"
  "avatars (updateMyPosition s) = avatars s"
  "avatarImages (updateMyPosition s) = avatarImages s"
  "canvasWidth (updateMyPosition s) = canvasWidth s"
  "canvasHeight (updateMyPosition s) = canvasHeight s"
  by (simp_all add: updateMyPosition_def split: option.split)

lemma addChatMessage_keeps [simp]:
  "players (addChatMessage u m t s) = players s"
  "activeEmotes (addChatMessage u m t s) = activeEmotes s"
  "timers (addChatMessage u m t s) = timers s"
  "now (addChatMessage u m t s) = now s"
  "sent (addChatMessage u m t s) = sent s"
  "socket (addChatMessage u m t s) = socket s"
  "worldImage (addChatMessage u m t s) = worldImage s"
  "ctxCalls (addChatMessage u m t s) = ctxCalls s"
  "camera (addChatMessage u m t s) = camera s"
  "myPlayerId (addChatMessage u m t s) = myPlayerId s"
  "avatars (addChatMessage u m t s) = avatars s"
  "avatarImages (addChatMessage u m t s) = avatarImages s"
  "canvasWidth (addChatMessage u m t s) = canvasWidth s"
  "canvasHeight (addChatMessage u m t s) = canvasHeight s"
  by (simp_all add: addChatMessage_def Let_def)


subsection \<open>Camera\<close>

text \<open>
  Claim C4. For every focus position and every canvas size that does not exceed the world size,
  the camera rectangle left by \<open>updateCamera\<close> has the canvas width and height, its origin is
  the clamp of (focus minus half the size) to the interval from 0 to (world size minus size) on
  each axis, and so the origin lies between 0 and (world size minus size) on each axis.
\<close>

theorem updateCamera_clamped:
  assumes "real (canvasWidth s) \<le> worldSize" and "real (canvasHeight s) \<le> worldSize"
  shows "cam_width (camera (updateCamera s)) = real (canvasWidth s)
       \<and> cam_height (camera (updateCamera s)) = real (canvasHeight s)
       \<and> cam_x (camera (updateCamera s)) =
           spec_clamp (fst (myPosition s) - real (canvasWidth s) / 2) 0
             (worldSize - real (canvasWidth s))
       \<and> cam_y (camera (updateCamera s)) =
           spec_clamp (snd (myPosition s) - real (canvasHeight s) / 2) 0
             (worldSize - real (canvasHeight s))
       \<and> 0 \<le> cam_x (camera (updateCamera s))
       \<and> cam_x (camera (updateCamera s)) \<le> worldSize - real (canvasWidth s)
       \<and> 0 \<le> cam_y (camera (updateCamera s))
       \<and> cam_y (camera (updateCamera s)) \<le> worldSize - real (canvasHeight s)"
  using assms by (simp add: updateCamera_def spec_clamp_def Let_def max_def min_def)

theorem updateCamera_clamped_witness:
  "real (canvasWidth ((newClient 800 600 0)\<lparr>myPosition := (1000, 20)\<rparr>)) \<le> worldSize
   \<and> real (canvasHeight ((newClient 800 600 0)\<lparr>myPosition := (1000, 20)\<rparr>)) \<le> worldSize
   \<and> camera (updateCamera ((newClient 800 600 0)\<lparr>myPosition := (1000, 20)\<rparr>))
       = \<lparr>cam_x = 600, cam_y = 0, cam_width = 800, cam_height = 600\<rparr>"
  using updateCamera_clamped [of "(newClient 800 600 0)\<lparr>myPosition := (1000, 20)\<rparr>"]
  by (simp add: newClient_def connectToServer_def setupChat_def loadWorldMap_def
      addChatMessage_def worldSize_def spec_clamp_def updateCamera_def Let_def)

text \<open>
  Claim C10. For every focus position and every canvas size, the origin left by \<open>updateCamera\<close>
  is not negative on either axis; on an axis where the canvas is larger than the world, the
  origin is exactly 0, because the outer \<open>Math.max(0, _)\<close> overrides the negative upper bound.
\<close>

theorem updateCamera_origin_nonneg:
  "0 \<le> cam_x (camera (updateCamera s))
   \<and> 0 \<le> cam_y (camera (updateCamera s))
   \<and> (worldSize < real (canvasWidth s) \<longrightarrow> cam_x (camera (updateCamera s)) = 0)
   \<and> (worldSize < real (canvasHeight s) \<longrightarrow> cam_y (camera (updateCamera s)) = 0)"
  by (simp add: updateCamera_def Let_def max_def min_def)

theorem updateCamera_origin_nonneg_witness:
  "worldSize < real (canvasWidth ((newClient 3000 2500 0)\<lparr>myPosition := (1000, 20)\<rparr>))
   \<and> worldSize < real (canvasHeight ((newClient 3000 2500 0)\<lparr>myPosition := (1000, 20)\<rparr>))
   \<and> camera (updateCamera ((newClient 3000 2500 0)\<lparr>myPosition := (1000, 20)\<rparr>))
       = \<lparr>cam_x = 0, cam_y = 0, cam_width = 3000, cam_height = 2500\<rparr>"
  using updateCamera_origin_nonneg [of "(newClient 3000 2500 0)\<lparr>myPosition := (1000, 20)\<rparr>"]
  by (simp add: newClient_def connectToServer_def setupChat_def loadWorldMap_def
      addChatMessage_def worldSize_def updateCamera_def Let_def)

subsection \<open>Partial update of the player table\<close>

lemma map_of_spread:
  assumes "distinct (map fst b)"
  shows "map_of (spread a b) k = (case map_of b k of Some v \<Rightarrow> Some v | None \<Rightarrow> map_of a k)"
  using assms unfolding spread_def
proof (induction b arbitrary: a)
  case Nil
  show ?case by simp
next
  case (Cons e b)
  obtain k' v' where e: "e = (k', v')" by (cases e)
  from Cons.prems have d: "distinct (map fst b)" and fresh: "map_of b k' = None"
    by (auto simp: e map_of_eq_None_iff)
  show ?case
    using fresh by (simp add: e Cons.IH [OF d] update_conv' split: option.split)
qed

text \<open>
  Claim C5. For every player table and every update \<open>U\<close> (an object, so its keys are
  distinct), after the \<open>players_moved\<close> message the entry of an id that is a key of \<open>U\<close> is
  the value \<open>U\<close> gives, whole, whether or not the id was there before, and the entry of an id
  that is not a key of \<open>U\<close> is what it was.
\<close>

theorem players_moved_overwrites:
  assumes "distinct (map fst U)"
  shows "map_of (players (handleMessage (PlayersMoved U) s)) k =
           (case map_of U k of Some pl \<Rightarrow> Some pl | None \<Rightarrow> map_of (players s) k)"
  using assms by (simp add: map_of_spread)

theorem players_moved_overwrites_witness:
  "distinct (map fst [(''a'', samplePlayer ''a'' 15 10 ''east''), (''c'', samplePlayer ''c'' 1 2 ''west'')])
   \<and> map_of (players (handleMessage
         (PlayersMoved [(''a'', samplePlayer ''a'' 15 10 ''east''), (''c'', samplePlayer ''c'' 1 2 ''west'')])
         ((newClient 800 600 0)\<lparr>players :=
            [(''a'', samplePlayer ''a'' 10 10 ''south''), (''b'', samplePlayer ''b'' 20 20 ''north'')]\<rparr>)))
       ''a'' = Some (samplePlayer ''a'' 15 10 ''east'')
   \<and> map_of (players (handleMessage
         (PlayersMoved [(''a'', samplePlayer ''a'' 15 10 ''east''), (''c'', samplePlayer ''c'' 1 2 ''west'')])
         ((newClient 800 600 0)\<lparr>players :=
            [(''a'', samplePlayer ''a'' 10 10 ''south''), (''b'', samplePlayer ''b'' 20 20 ''north'')]\<rparr>)))
       ''b'' = Some (samplePlayer ''b'' 20 20 ''north'')
   \<and> map_of (players (handleMessage
         (PlayersMoved [(''a'', samplePlayer ''a'' 15 10 ''east''), (''c'', samplePlayer ''c'' 1 2 ''west'')])
         ((newClient 800 600 0)\<lparr>players :=
            [(''a'', samplePlayer ''a'' 10 10 ''south''), (''b'', samplePlayer ''b'' 20 20 ''north'')]\<rparr>)))
       ''c'' = Some (samplePlayer ''c'' 1 2 ''west'')"
  using players_moved_overwrites
      [of "[(''a'', samplePlayer ''a'' 15 10 ''east''), (''c'', samplePlayer ''c'' 1 2 ''west'')]"
          "(newClient 800 600 0)\<lparr>players :=
            [(''a'', samplePlayer ''a'' 10 10 ''south''), (''b'', samplePlayer ''b'' 20 20 ''north'')]\<rparr>"]
  by simp

subsection \<open>Chat log\<close>

lemma chatInsert_log:
  "chatMessages (chatInsert e s) =
     (if length (chatMessages s) < 50 then chatMessages s @ [chatEntry e]
      else tl (chatMessages s @ [chatEntry e]))"
  by (cases e) (simp add: chatInsert_def chatEntry_def addChatMessage_def maxChatMessages_def Let_def)

lemma chatInsert_last_50:
  assumes "length (chatMessages s) \<le> 50"
  shows "chatMessages (chatInsert e s) =
           drop (length (chatMessages s) + 1 - 50) (chatMessages s @ [chatEntry e])"
proof (cases "length (chatMessages s) < 50")
  case True
  then show ?thesis by (simp add: chatInsert_log)
next
  case False
  with assms have l: "length (chatMessages s) = 50" by simp
  then obtain x xs where "chatMessages s = x # xs" by (cases "chatMessages s") auto
  with l show ?thesis by (simp add: chatInsert_log)
qed

lemma chatInserts_last_50:
  assumes "length (chatMessages s) \<le> 50"
  shows "chatMessages (fold chatInsert es s) =
           drop (length (chatMessages s) + length es - 50) (chatMessages s @ map chatEntry es)"
  using assms
proof (induction es arbitrary: s)
  case Nil
  then show ?case by simp
next
  case (Cons e es)
  define c where "c = chatMessages s"
  define k where "k = length c + 1 - 50"
  define c' where "c' = drop k (c @ [chatEntry e])"
  have c50: "length c \<le> 50" using Cons.prems by (simp add: c_def)
  have step: "chatMessages (chatInsert e s) = c'"
    unfolding c'_def k_def c_def using Cons.prems by (rule chatInsert_last_50)
  have len: "length c' \<le> 50"
    using c50 by (simp add: c'_def k_def)
  have k_le: "k \<le> length (c @ [chatEntry e])"
    by (simp add: k_def)
  have idx: "length c' + length es - 50 + k = length c + length (e # es) - 50"
    using c50 by (simp add: c'_def k_def)
  have "chatMessages (fold chatInsert (e # es) s) = chatMessages (fold chatInsert es (chatInsert e s))"
    by simp
  also have "\<dots> = drop (length c' + length es - 50) (c' @ map chatEntry es)"
    using Cons.IH [of "chatInsert e s"] len by (simp add: step)
  also have "c' @ map chatEntry es = drop k ((c @ [chatEntry e]) @ map chatEntry es)"
    using k_le unfolding c'_def by (simp only: drop_append) simp
  also have "drop (length c' + length es - 50) (drop k ((c @ [chatEntry e]) @ map chatEntry es))
      = drop (length c' + length es - 50 + k) ((c @ [chatEntry e]) @ map chatEntry es)"
    by (simp only: drop_drop)
  also have "\<dots> = drop (length c + length (e # es) - 50) (c @ map chatEntry (e # es))"
    by (simp only: idx) simp
  finally show ?case by (simp only: c_def)
qed

text \<open>
  Claim C7. From a log of at most 50 entries (the constructor's log is empty), after every
  sequence of insertions the log has at most 50 entries: it is the last 50 of the old entries
  followed by the inserted ones, in insertion order. In particular an insertion into a log of
  exactly 50 entries drops the oldest entry, keeps the other 49 in their order and puts the new
  entry last.
\<close>

theorem chat_log_capped:
  assumes "length (chatMessages s) \<le> 50"
  shows "length (chatMessages (fold chatInsert es s)) \<le> 50
       \<and> chatMessages (fold chatInsert es s) =
           drop (length (chatMessages s) + length es - 50) (chatMessages s @ map chatEntry es)
       \<and> (length (chatMessages s) = 50 \<longrightarrow>
            chatMessages (addChatMessage user msg type s) =
              tl (chatMessages s)
              @ [\<lparr>cm_username = user, cm_message = msg, cm_timestamp = now s, cm_type = type\<rparr>])"
proof -
  have a: "chatMessages (fold chatInsert es s) =
           drop (length (chatMessages s) + length es - 50) (chatMessages s @ map chatEntry es)"
    using assms by (rule chatInserts_last_50)
  have b: "length (chatMessages (fold chatInsert es s)) \<le> 50"
    using assms by (simp add: a)
  have c: "length (chatMessages s) = 50 \<longrightarrow>
            chatMessages (addChatMessage user msg type s) =
              tl (chatMessages s)
              @ [\<lparr>cm_username = user, cm_message = msg, cm_timestamp = now s, cm_type = type\<rparr>]"
    by (cases "chatMessages s") (simp_all add: addChatMessage_def maxChatMessages_def Let_def)
  from a b c show ?thesis by simp
qed

theorem chat_log_capped_witness:
  "length (chatMessages ((newClient 800 600 0)\<lparr>chatMessages := replicate 50 (chatEntry (0, ''a'', ''hi'', ''other''))\<rparr>)) = 50
   \<and> chatMessages (addChatMessage ''b'' ''bye'' ''other''
        ((newClient 800 600 0)\<lparr>chatMessages := replicate 50 (chatEntry (0, ''a'', ''hi'', ''other''))\<rparr>))
      = replicate 49 (chatEntry (0, ''a'', ''hi'', ''other'')) @ [chatEntry (0, ''b'', ''bye'', ''other'')]
   \<and> chatMessages (fold chatInsert [(5, ''a'', ''x'', ''other''), (6, ''You'', ''y'', ''own'')] (newClient 800 600 0))
      = [chatEntry (0, ''System'', ''Welcome to the game! Type messages to chat with other players.'', ''system''),
         chatEntry (5, ''a'', ''x'', ''other''), chatEntry (6, ''You'', ''y'', ''own'')]"
  using chat_log_capped [of "(newClient 800 600 0)\<lparr>chatMessages := replicate 50 (chatEntry (0, ''a'', ''hi'', ''other''))\<rparr>" "[]" "''b''" "''bye''" "''other''"]
    chat_log_capped [of "newClient 800 600 0" "[(5, ''a'', ''x'', ''other''), (6, ''You'', ''y'', ''own'')]"]
  by (simp add: newClient_def connectToServer_def setupChat_def loadWorldMap_def
      addChatMessage_def maxChatMessages_def chatEntry_def Let_def numeral_eq_Suc)

subsection \<open>Keyboard\<close>

text \<open>
  Claim C1, amended. For every key-down of a mapped movement key, the direction \<open>d\<close> that
  \<open>movementKeys\<close> gives is one of up, down, left, right; while the socket is open
  \<open>handleKeyDown\<close> sends exactly the message \<open>{action: "move", direction: d}\<close>, and while
  it is not open it sends nothing. (As stated, with the directions north, south, east and west,
  the claim fails: see the counterexample below.)
\<close>

theorem handleKeyDown_sends_move:
  assumes "movementKeys code = Some d"
  shows "d \<in> {''up'', ''down'', ''left'', ''right''}
       \<and> sent (handleKeyDown code s) =
           (if socket s = Some OPEN then sent s @ [Move d] else sent s)"
  using assms
  by (auto simp: movementKeys_def handleKeyDown_def sendMoveCommand_def split: if_splits)

theorem handleKeyDown_sends_move_witness:
  "movementKeys ''ArrowLeft'' = Some ''left''
   \<and> sent (handleKeyDown ''ArrowLeft'' (socket_onopen (newClient 800 600 0)))
       = [JoinGame ''Melvin'' None, Move ''left'']
   \<and> sent (handleKeyDown ''ArrowLeft'' (newClient 800 600 0)) = []"
  using handleKeyDown_sends_move [of "''ArrowLeft''" "''left''" "socket_onopen (newClient 800 600 0)"]
    handleKeyDown_sends_move [of "''ArrowLeft''" "''left''" "newClient 800 600 0"]
  by (simp add: movementKeys_def newClient_def connectToServer_def setupChat_def loadWorldMap_def
      addChatMessage_def socket_onopen_def joinGame_def Let_def)

theorem move_direction_counterexample:
  "sent (handleKeyDown ''ArrowUp'' (socket_onopen (newClient 800 600 0)))
     = [JoinGame ''Melvin'' None, Move ''up'']
   \<and> ''up'' \<notin> {''north'', ''south'', ''east'', ''west''}"
  by (simp add: handleKeyDown_def sendMoveCommand_def movementKeys_def newClient_def
      connectToServer_def setupChat_def loadWorldMap_def addChatMessage_def socket_onopen_def
      joinGame_def Let_def)

lemma handleKeyDown_keeps [simp]:
  "socket (handleKeyDown code s) = socket s"
  by (simp add: handleKeyDown_def sendMoveCommand_def split: option.split)

lemma handleKeyUp_keeps [simp]:
  "socket (handleKeyUp code s) = socket s"
  by (simp add: handleKeyUp_def sendStopCommand_def Let_def split: option.split)

text \<open>
  Claim C6, amended. With the socket open and no key held, the events key-down of ArrowUp,
  key-down of ArrowDown, key-up of ArrowDown send exactly the messages move(up), move(down):
  the release of ArrowDown while ArrowUp is held sends nothing; the key-up of ArrowUp that
  follows sends exactly stop. (As stated, with the intents move(north) and move(south), the
  claim fails: see the counterexample below.)
\<close>

theorem key_sequence_messages:
  assumes "socket s = Some OPEN" and "pressedKeys s = {}"
  shows "sent (handleKeyDown ''ArrowUp'' s) = sent s @ [Move ''up'']
       \<and> sent (handleKeyDown ''ArrowDown'' (handleKeyDown ''ArrowUp'' s))
           = sent s @ [Move ''up'', Move ''down'']
       \<and> sent (handleKeyUp ''ArrowDown'' (handleKeyDown ''ArrowDown'' (handleKeyDown ''ArrowUp'' s)))
           = sent s @ [Move ''up'', Move ''down'']
       \<and> sent (handleKeyUp ''ArrowUp''
           (handleKeyUp ''ArrowDown'' (handleKeyDown ''ArrowDown'' (handleKeyDown ''ArrowUp'' s))))
           = sent s @ [Move ''up'', Move ''down'', Stop]"
  using assms
  by (simp add: handleKeyDown_def handleKeyUp_def sendMoveCommand_def sendStopCommand_def
      movementKeys_def Let_def)

theorem key_sequence_messages_witness:
  "socket (socket_onopen (newClient 800 600 0)) = Some OPEN
   \<and> pressedKeys (socket_onopen (newClient 800 600 0)) = {}
   \<and> sent (handleKeyUp ''ArrowUp'' (handleKeyUp ''ArrowDown''
        (handleKeyDown ''ArrowDown'' (handleKeyDown ''ArrowUp'' (socket_onopen (newClient 800 600 0))))))
       = [JoinGame ''Melvin'' None, Move ''up'', Move ''down'', Stop]"
  using key_sequence_messages [of "socket_onopen (newClient 800 600 0)"]
  by (simp add: newClient_def connectToServer_def setupChat_def loadWorldMap_def
      addChatMessage_def socket_onopen_def joinGame_def Let_def)

theorem key_sequence_counterexample:
  "sent (handleKeyUp ''ArrowDown'' (handleKeyDown ''ArrowDown''
       (handleKeyDown ''ArrowUp'' (socket_onopen (newClient 800 600 0)))))
     = [JoinGame ''Melvin'' None, Move ''up'', Move ''down'']
   \<and> [Move ''up'', Move ''down''] \<noteq> [Move ''north'', Move ''south'']"
  by (simp add: handleKeyDown_def handleKeyUp_def sendMoveCommand_def sendStopCommand_def
      movementKeys_def newClient_def connectToServer_def setupChat_def loadWorldMap_def
      addChatMessage_def socket_onopen_def joinGame_def Let_def)

subsection \<open>Emotes\<close>

lemma showEmote_fields [simp]:
  "activeEmotes (showEmote p e s) = (activeEmotes s)(p \<mapsto> \<lparr>em_type = e, startTime = now s\<rparr>)"
  "timers (showEmote p e s) = timers s @ [(now s + emoteDuration, p)]"
  "now (showEmote p e s) = now s"
  "players (showEmote p e s) = players s"
  "chatMessages (showEmote p e s) = chatMessages s"
  by (simp_all add: showEmote_def)

lemma emoteTimeout_fields [simp]:
  "activeEmotes (emoteTimeout p s) = (activeEmotes s)(p := None)"
  "timers (emoteTimeout p s) = timers s"
  "now (emoteTimeout p s) = now s"
  "players (emoteTimeout p s) = players s"
  "chatMessages (emoteTimeout p s) = chatMessages s"
  by (simp_all add: emoteTimeout_def)

lemma emoteTimeout_absent: "activeEmotes s p = None \<Longrightarrow> emoteTimeout p s = render s"
  by (simp add: emoteTimeout_def fun_upd_idem)

lemma drawEmote_inactive: "activeEmotes s p = None \<Longrightarrow> drawEmote s p x y = []"
  by (simp add: drawEmote_def)

lemma newClient_fields [simp]:
  "timers (newClient w h t) = []"
  "now (newClient w h t) = t"
  "activeEmotes (newClient w h t) = Map.empty"
  "players (newClient w h t) = []"
  by (simp_all add: newClient_def connectToServer_def setupChat_def loadWorldMap_def)

text \<open>
  Claim C2 fails on the code. An emote is shown for player E at time 0 and shown again at time
  1000. \<open>showEmote\<close> cancels nothing: after the second call two removals are pending for E,
  due at 3000 and at 4000. The first one runs at 3000 and deletes the record of the second
  emote, so at time 3500, before 1000 + 3000, player E has no active emote and \<open>drawEmote\<close>
  draws nothing.
\<close>

theorem showEmote_retrigger_removed_early:
  "timers (showEmote ''E'' ''dance'' (advanceTo 1000 (showEmote ''E'' ''wave'' (newClient 800 600 0))))
     = [(3000, ''E''), (4000, ''E'')]
   \<and> activeEmotes (showEmote ''E'' ''dance'' (advanceTo 1000 (showEmote ''E'' ''wave'' (newClient 800 600 0)))) ''E''
     = Some \<lparr>em_type = ''dance'', startTime = 1000\<rparr>
   \<and> now (advanceTo 3500
        (showEmote ''E'' ''dance'' (advanceTo 1000 (showEmote ''E'' ''wave'' (newClient 800 600 0))))) = 3500
   \<and> activeEmotes (advanceTo 3500
        (showEmote ''E'' ''dance'' (advanceTo 1000 (showEmote ''E'' ''wave'' (newClient 800 600 0))))) ''E'' = None
   \<and> drawEmote (advanceTo 3500
        (showEmote ''E'' ''dance'' (advanceTo 1000 (showEmote ''E'' ''wave'' (newClient 800 600 0))))) ''E'' 0 0 = []"
  by (simp add: advanceTo_def emoteDuration_def drawEmote_def Let_def)

lemma PlayerLeft_fields [simp]:
  "activeEmotes (handleMessage (PlayerLeft p) s) = (activeEmotes s)(p := None)"
  "players (handleMessage (PlayerLeft p) s) = AList.delete p (players s)"
  "timers (handleMessage (PlayerLeft p) s) = timers s"
  "now (handleMessage (PlayerLeft p) s) = now s"
  by (simp_all add: Let_def split: option.split)

text \<open>
  Claim C8. After the \<open>player_left\<close> message for E, whatever the state before, E is in neither
  table and \<open>drawEmote\<close> draws nothing for E at any later time. When E is not a player the
  message only deletes the emote record of E, if there is one, and renders; when E is in no
  table it leaves every table as it was and only renders. After an emote for E followed by the
  removal of E, the removal scheduled by \<open>showEmote\<close> is still pending, and its callback
  finds no record: it leaves every table as it was and only renders. The callback has no
  failing branch: \<open>delete\<close> of an absent property is not an error.
\<close>

theorem player_left_clears_emote:
  "activeEmotes (handleMessage (PlayerLeft E) s) E = None
   \<and> map_of (players (handleMessage (PlayerLeft E) s)) E = None
   \<and> drawEmote ((handleMessage (PlayerLeft E) s)\<lparr>now := t\<rparr>) E x y = []
   \<and> (map_of (players s) E = None \<longrightarrow>
        handleMessage (PlayerLeft E) s = render (s\<lparr>activeEmotes := (activeEmotes s)(E := None)\<rparr>))
   \<and> (map_of (players s) E = None \<and> activeEmotes s E = None \<longrightarrow>
        handleMessage (PlayerLeft E) s = render s)
   \<and> (now s + emoteDuration, E) \<in> set (timers (handleMessage (PlayerLeft E) (showEmote E ty s)))
   \<and> emoteTimeout E (handleMessage (PlayerLeft E) (showEmote E ty s))
        = render (handleMessage (PlayerLeft E) (showEmote E ty s))"
proof -
  have absent: "map_of (players s) E = None \<Longrightarrow> AList.delete E (players s) = players s"
    by (simp add: map_of_eq_None_iff)
  have a: "map_of (players s) E = None \<longrightarrow>
        handleMessage (PlayerLeft E) s = render (s\<lparr>activeEmotes := (activeEmotes s)(E := None)\<rparr>)"
    by (simp add: absent Let_def)
  have b: "map_of (players s) E = None \<and> activeEmotes s E = None \<longrightarrow>
        handleMessage (PlayerLeft E) s = render s"
    by (simp add: absent Let_def fun_upd_idem)
  have c: "emoteTimeout E (handleMessage (PlayerLeft E) (showEmote E ty s))
        = render (handleMessage (PlayerLeft E) (showEmote E ty s))"
    by (rule emoteTimeout_absent) (simp only: PlayerLeft_fields, simp)
  have d: "drawEmote ((handleMessage (PlayerLeft E) s)\<lparr>now := t\<rparr>) E x y = []"
    by (rule drawEmote_inactive) (simp add: Let_def split: option.split)
  have e: "map_of (players (handleMessage (PlayerLeft E) s)) E = None"
    by (simp only: PlayerLeft_fields delete_conv', simp)
  have f: "activeEmotes (handleMessage (PlayerLeft E) s) E = None"
    by (simp only: PlayerLeft_fields, simp)
  have g: "(now s + emoteDuration, E)
             \<in> set (timers (handleMessage (PlayerLeft E) (showEmote E ty s)))"
    by (simp only: PlayerLeft_fields showEmote_fields, simp)
  from f e d a b g c show ?thesis by blast
qed

theorem player_left_clears_emote_witness:
  "map_of (players (newClient 800 600 0)) ''E'' = None
   \<and> activeEmotes (newClient 800 600 0) ''E'' = None
   \<and> handleMessage (PlayerLeft ''E'') (newClient 800 600 0) = render (newClient 800 600 0)
   \<and> timers (handleMessage (PlayerLeft ''E'') (showEmote ''E'' ''wave'' (newClient 800 600 0)))
       = [(3000, ''E'')]
   \<and> activeEmotes (advanceTo 3000
        (handleMessage (PlayerLeft ''E'') (showEmote ''E'' ''wave'' (newClient 800 600 0)))) ''E'' = None
   \<and> timers (advanceTo 3000
        (handleMessage (PlayerLeft ''E'') (showEmote ''E'' ''wave'' (newClient 800 600 0)))) = []"
  using player_left_clears_emote [of "''E''" "newClient 800 600 0"]
  by (simp add: advanceTo_def emoteDuration_def newClient_def connectToServer_def setupChat_def
      loadWorldMap_def addChatMessage_def showEmote_def emoteTimeout_def Let_def)

subsection \<open>Rendering\<close>

lemma render_without_image: "worldImage s = None \<Longrightarrow> render s = s"
  by (simp add: render_def)

lemma newClient_has_image: "worldImage (newClient w h t) \<noteq> None"
  by (simp add: newClient_def connectToServer_def setupChat_def loadWorldMap_def
      addChatMessage_def Let_def)

text \<open>
  Claim C3 fails on the code. \<open>render\<close> returns early only while \<open>worldImage\<close> is null, and
  \<open>loadWorldMap\<close> stores the image element before it has loaded. In the state reached by: start,
  socket open, successful join with one player at (100, 100), the south frame of its avatar
  decoded --- the world image has not loaded, and the render that the frame's \<open>onload\<close>
  runs (the calls after the two of the render at the join) clears the canvas, draws the
  unloaded world image, the sprite and the name label.
\<close>

theorem render_before_world_loaded:
  "worldImage (avatarFrame_onload ''hero'' ''south'' 0 (sampleImage ''s0'')
      (handleMessage (JoinGameOk ''p1'' [(''p1'', samplePlayer ''p1'' 100 100 ''south'')]
         [(''hero'', sampleAvatar)]) (socket_onopen (newClient 800 600 0))))
     = Some \<lparr>img_src = ''world.jpg'', img_width = 0, img_height = 0, img_loaded = False\<rparr>
   \<and> drop 2 (ctxCalls (avatarFrame_onload ''hero'' ''south'' 0 (sampleImage ''s0'')
      (handleMessage (JoinGameOk ''p1'' [(''p1'', samplePlayer ''p1'' 100 100 ''south'')]
         [(''hero'', sampleAvatar)]) (socket_onopen (newClient 800 600 0)))))
     = [ClearRect 0 0 800 600,
        DrawImage9 \<lparr>img_src = ''world.jpg'', img_width = 0, img_height = 0, img_loaded = False\<rparr>
          0 0 800 600 0 0 800 600,
        Save, DrawImage5 (sampleImage ''s0'') 84 84 32 32, Restore,
        Save, SetFillStyle ''white'', SetStrokeStyle ''black'', SetLineWidth 2,
        SetFont ''12px Arial'', SetTextAlign ''center'',
        StrokeText ''p1'' 100 79, FillText ''p1'' 100 79, Restore]"
  by (simp add: avatarFrame_onload_def newClient_def connectToServer_def setupChat_def
      loadWorldMap_def socket_onopen_def joinGame_def addChatMessage_def maxChatMessages_def
      loadAvatarImages_def loadAvatarImage_def updateMyPosition_def updateCamera_def
      worldSize_def render_def drawAvatars_def drawAvatar_def drawEmote_def
      samplePlayer_def sampleAvatar_def sampleImage_def Let_def)

text \<open>
  Claim C9. For every player facing west whose sprite is drawn (not culled; avatar, image table,
  east frame set and frame present), \<open>drawAvatar\<close> takes the frame from the east set, applies
  \<open>scale(-1, 1)\<close> and draws it at \<open>-screenX - width/2\<close>. The east-facing draw of the same
  player uses the same frame without the flip, and every column of the frame lands at the
  mirror image, about the player's screen x-coordinate, of where the east-facing draw puts
  it: the sprite covers the same span, centred at the same screen position.
\<close>

theorem west_sprite_mirrored:
  assumes "facing pl = ''west''"
    and "- 50 \<le> p_x pl - cam_x (camera s)"
    and "p_x pl - cam_x (camera s) \<le> cam_width (camera s) + 50"
    and "- 50 \<le> p_y pl - cam_y (camera s)"
    and "p_y pl - cam_y (camera s) \<le> cam_height (camera s) + 50"
    and "map_of (avatars s) (avatar pl) = Some av"
    and "avatarImages s (avatar pl) = Some imgs"
    and "imgs ''east'' = Some frames"
    and "frames (case animationFrame pl of None \<Rightarrow> 0 | Some n \<Rightarrow> n) = Some img"
  shows "drawAvatar s pl =
           [Save, Scale (- 1) 1,
            DrawImage5 img
              (- (p_x pl - cam_x (camera s)) - 32 * (img_width img / img_height img) / 2)
              (p_y pl - cam_y (camera s) - 32 / 2)
              (32 * (img_width img / img_height img)) 32,
            Restore,
            Save, SetFillStyle ''white'', SetStrokeStyle ''black'', SetLineWidth 2,
            SetFont ''12px Arial'', SetTextAlign ''center'',
            StrokeText (username pl) (p_x pl - cam_x (camera s))
              (p_y pl - cam_y (camera s) - 32 / 2 - 5),
            FillText (username pl) (p_x pl - cam_x (camera s))
              (p_y pl - cam_y (camera s) - 32 / 2 - 5),
            Restore]
           @ drawEmote s (p_id pl) (p_x pl - cam_x (camera s))
               (p_y pl - cam_y (camera s) - 32 / 2 - 20)
       \<and> take 3 (drawAvatar s (pl\<lparr>facing := ''east''\<rparr>)) =
           [Save,
            DrawImage5 img
              (p_x pl - cam_x (camera s) - 32 * (img_width img / img_height img) / 2)
              (p_y pl - cam_y (camera s) - 32 / 2)
              (32 * (img_width img / img_height img)) 32,
            Restore]
       \<and> spriteX 1 (drawAvatar s pl) u =
           map_option (\<lambda>x. 2 * (p_x pl - cam_x (camera s)) - x)
             (spriteX 1 (drawAvatar s (pl\<lparr>facing := ''east''\<rparr>)) u)
       \<and> spriteX 1 (drawAvatar s pl) u
           = Some (p_x pl - cam_x (camera s) + 32 * (img_width img / img_height img) / 2 - u)"
  using assms by (simp add: drawAvatar_def Let_def)

theorem west_sprite_mirrored_witness:
  "facing (samplePlayer ''p1'' 100 100 ''west'') = ''west''
   \<and> camera (avatarFrame_onload ''hero'' ''east'' 0 (sampleImage ''e0'')
        (handleMessage (JoinGameOk ''p1'' [(''p1'', samplePlayer ''p1'' 100 100 ''west'')]
           [(''hero'', sampleAvatar)]) (socket_onopen (newClient 800 600 0))))
       = \<lparr>cam_x = 0, cam_y = 0, cam_width = 800, cam_height = 600\<rparr>
   \<and> map_of (avatars (avatarFrame_onload ''hero'' ''east'' 0 (sampleImage ''e0'')
        (handleMessage (JoinGameOk ''p1'' [(''p1'', samplePlayer ''p1'' 100 100 ''west'')]
           [(''hero'', sampleAvatar)]) (socket_onopen (newClient 800 600 0)))))
        (avatar (samplePlayer ''p1'' 100 100 ''west'')) = Some sampleAvatar
   \<and> avatarImages (avatarFrame_onload ''hero'' ''east'' 0 (sampleImage ''e0'')
        (handleMessage (JoinGameOk ''p1'' [(''p1'', samplePlayer ''p1'' 100 100 ''west'')]
           [(''hero'', sampleAvatar)]) (socket_onopen (newClient 800 600 0))))
        (avatar (samplePlayer ''p1'' 100 100 ''west''))
       = Some [''north'' \<mapsto> Map.empty, ''south'' \<mapsto> Map.empty,
               ''east'' \<mapsto> [0 \<mapsto> sampleImage ''e0'']]
   \<and> take 4 (drawAvatar (avatarFrame_onload ''hero'' ''east'' 0 (sampleImage ''e0'')
        (handleMessage (JoinGameOk ''p1'' [(''p1'', samplePlayer ''p1'' 100 100 ''west'')]
           [(''hero'', sampleAvatar)]) (socket_onopen (newClient 800 600 0))))
        (samplePlayer ''p1'' 100 100 ''west''))
       = [Save, Scale (- 1) 1, DrawImage5 (sampleImage ''e0'') (- 116) 84 32 32, Restore]
   \<and> spriteX 1 (drawAvatar (avatarFrame_onload ''hero'' ''east'' 0 (sampleImage ''e0'')
        (handleMessage (JoinGameOk ''p1'' [(''p1'', samplePlayer ''p1'' 100 100 ''west'')]
           [(''hero'', sampleAvatar)]) (socket_onopen (newClient 800 600 0))))
        (samplePlayer ''p1'' 100 100 ''west'')) 5 = Some 111"
  using west_sprite_mirrored
    [of "samplePlayer ''p1'' 100 100 ''west''"
        "avatarFrame_onload ''hero'' ''east'' 0 (sampleImage ''e0'')
          (handleMessage (JoinGameOk ''p1'' [(''p1'', samplePlayer ''p1'' 100 100 ''west'')]
             [(''hero'', sampleAvatar)]) (socket_onopen (newClient 800 600 0)))"
        sampleAvatar
        "[''north'' \<mapsto> Map.empty, ''south'' \<mapsto> Map.empty, ''east'' \<mapsto> [0 \<mapsto> sampleImage ''e0'']]"
        "[0 \<mapsto> sampleImage ''e0'']"
        "sampleImage ''e0''" 5]
  by (simp add: avatarFrame_onload_def newClient_def connectToServer_def setupChat_def
      loadWorldMap_def socket_onopen_def joinGame_def addChatMessage_def maxChatMessages_def
      loadAvatarImages_def loadAvatarImage_def updateMyPosition_def updateCamera_def
      worldSize_def handleMessage.simps
      samplePlayer_def sampleAvatar_def sampleImage_def Let_def)

end
